theory Spec2Isabelle
  imports Main "HOL-Library.Sublist"
begin

section \<open>Data model\<close>

text \<open>
  A calendar date as Python's \<open>datetime.date\<close> exposes it to the service: the three
  integer attributes \<open>year\<close>, \<open>month\<close> and \<open>day\<close>.
\<close>

record date =
  year :: int
  month :: int
  day :: int

text \<open>
  The Persona entity. The attribute \<open>id\<close> of the source is called \<open>persona_id\<close> here.
  The ORM attribute \<open>email\<close> may read as \<open>None\<close>: \<open>get_stats_dominios\<close> catches the
  \<open>AttributeError\<close> that follows from it, so the attribute is optional in the model.
\<close>

record persona =
  persona_id :: int
  first_name :: string
  last_name :: string
  email :: "string option"
  phone :: "string option"
  birth_date :: "date option"
  is_active :: bool
  notes_p :: "string option"

text \<open>
  The request body of Create. Modelled from the spec: the schema classes
  (\<open>views/persona.py\<close>) are not among the sources; in the data model of the spec first
  name, last name, email and the active flag are always there, phone, birth date and
  notes are optional.
\<close>

record persona_create =
  pc_first_name :: string
  pc_last_name :: string
  pc_email :: string
  pc_phone :: "string option"
  pc_birth_date :: "date option"
  pc_is_active :: bool
  pc_notes :: "string option"

text \<open>
  The request body of Update after \<open>model_dump(exclude_unset=True)\<close>: a field that is
  \<open>None\<close> here is absent from the dictionary, \<open>Some v\<close> is a key with value \<open>v\<close>. The
  optional attributes can be set to \<open>None\<close>.
\<close>

record persona_update =
  pu_first_name :: "string option"
  pu_last_name :: "string option"
  pu_email :: "string option"
  pu_phone :: "string option option"
  pu_birth_date :: "date option option"
  pu_is_active :: "bool option"
  pu_notes :: "string option option"

datatype error = PersonaNotFoundError | EmailAlreadyExistsError | IntegrityError

text \<open>
  The persisted state: the rows of the single table, in storage order, and the counter
  from which the storage engine assigns the next identifier.
\<close>

record store =
  rows :: "persona list"
  next_id :: int

section \<open>The storage engine\<close>

text \<open>
  Modelled from the spec: the table declaration (\<open>models/persona.py\<close>) is not among the
  sources. The spec gives the table a uniqueness constraint on the email column; as in
  SQL, a row without an email never conflicts.
\<close>

definition unique_violation :: "persona list \<Rightarrow> persona \<Rightarrow> bool" where
  "unique_violation rs p =
     (case email p of
        None \<Rightarrow> False
      | Some e \<Rightarrow> find (\<lambda>r. email r = Some e) rs \<noteq> None)"

text \<open>
  \<open>INSERT\<close> of one row: the constraint is checked against the rows present, the engine
  assigns the identifier. The result carries the row as persisted.
\<close>

definition db_insert :: "store \<Rightarrow> persona \<Rightarrow> error + (persona \<times> store)" where
  "db_insert db p =
     (if unique_violation (rows db) p then Inl IntegrityError
      else (let obj = p\<lparr>persona_id := next_id db\<rparr>
            in Inr (obj, \<lparr>rows = rows db @ [obj], next_id = next_id db + 1\<rparr>)))"

text \<open>The rows of \<open>add_all\<close> are inserted in order; the first violation aborts the batch.\<close>

fun db_insert_all :: "store \<Rightarrow> persona list \<Rightarrow> error + store" where
  "db_insert_all db [] = Inr db"
| "db_insert_all db (p # ps) =
     (case db_insert db p of
        Inl e \<Rightarrow> Inl e
      | Inr (obj, db') \<Rightarrow> db_insert_all db' ps)"

text \<open>\<open>UPDATE ... WHERE id = persona_id obj\<close>, checked against the other rows.\<close>

definition db_update :: "store \<Rightarrow> persona \<Rightarrow> error + store" where
  "db_update db obj =
     (if unique_violation (filter (\<lambda>r. persona_id r \<noteq> persona_id obj) (rows db)) obj
      then Inl IntegrityError
      else Inr (db\<lparr>rows := map (\<lambda>r. if persona_id r = persona_id obj then obj else r) (rows db)\<rparr>))"

text \<open>\<open>DELETE ... WHERE id = i\<close>.\<close>

definition db_delete :: "store \<Rightarrow> int \<Rightarrow> store" where
  "db_delete db i = db\<lparr>rows := filter (\<lambda>r. persona_id r \<noteq> i) (rows db)\<rparr>"

section \<open>The persona service\<close>

text \<open>
  Every operation returns its result, or the error it raises, together with the store it
  leaves behind. A transaction that fails is rolled back: the store is the one before.
\<close>

text \<open>
  The constructor call \<open>Persona(...)\<close>: the object has no identifier until it is
  inserted; the placeholder \<open>0\<close> is overwritten by \<open>db_insert\<close>.
\<close>

definition Persona ::
  "string \<Rightarrow> string \<Rightarrow> string \<Rightarrow> string option \<Rightarrow> date option \<Rightarrow> bool \<Rightarrow> string option \<Rightarrow> persona" where
  "Persona fn ln em ph bd act nt =
     \<lparr>persona_id = 0, first_name = fn, last_name = ln, email = Some em, phone = ph,
      birth_date = bd, is_active = act, notes_p = nt\<rparr>"

definition create_persona :: "store \<Rightarrow> persona_create \<Rightarrow> (error + persona) \<times> store" where
  "create_persona db payload =
     (if find (\<lambda>r. email r = Some (pc_email payload)) (rows db) \<noteq> None
      then (Inl EmailAlreadyExistsError, db)
      else (let obj = Persona (pc_first_name payload) (pc_last_name payload) (pc_email payload)
                        (pc_phone payload) (pc_birth_date payload) (pc_is_active payload)
                        (pc_notes payload)
            in case db_insert db obj of
                 Inl e \<Rightarrow> (Inl EmailAlreadyExistsError, db)
               | Inr (obj', db') \<Rightarrow> (Inr obj', db')))"

subsection \<open>Bulk population\<close>

text \<open>
  What the synthetic-data generator and the random source hand out in one iteration of
  the loop of \<open>poblar_personas\<close>. The three \<open>rnd\<close> fields are the random integers behind
  the three calls of \<open>random.choice\<close>.
\<close>

record draw =
  fk_first_name :: string
  fk_last_name :: string
  rnd_dominio :: nat
  fk_phone_number :: string
  fk_date_of_birth :: date
  rnd_is_active :: nat
  fk_sentence :: string
  rnd_notes :: nat

definition dominios_validos :: "string list" where
  "dominios_validos = [''gmail.com'', ''outlook.com'', ''yahoo.com'', ''hotmail.com'']"

text \<open>\<open>random.choice(seq)\<close> returns \<open>seq[k]\<close> for a random index \<open>k\<close> below \<open>len(seq)\<close>.\<close>

definition random_choice :: "'a list \<Rightarrow> nat \<Rightarrow> 'a" where
  "random_choice seq k = seq ! (k mod length seq)"

text \<open>
  One iteration of the loop. \<open>lower\<close> stands for Python's \<open>str.lower\<close>, which follows the
  Unicode case tables.
\<close>

definition fake_persona :: "(string \<Rightarrow> string) \<Rightarrow> draw \<Rightarrow> persona" where
  "fake_persona lower d =
     (let first_name = fk_first_name d;
          last_name = fk_last_name d;
          dominio = random_choice dominios_validos (rnd_dominio d);
          email = lower first_name @ ''.'' @ lower last_name @ ''@'' @ dominio
      in Persona first_name last_name email
           (Some (fk_phone_number d))
           (Some (fk_date_of_birth d))
           (random_choice [True, False] (rnd_is_active d))
           (random_choice [Some (fk_sentence d), None] (rnd_notes d)))"

text \<open>
  \<open>gen i\<close> is the draw of iteration \<open>i\<close>. \<open>range(cantidad)\<close> is empty for a count that is
  not positive. The \<open>IntegrityError\<close> of \<open>commit\<close> is not caught here.
\<close>

definition poblar_personas ::
  "(string \<Rightarrow> string) \<Rightarrow> (nat \<Rightarrow> draw) \<Rightarrow> store \<Rightarrow> int \<Rightarrow> (error + int) \<times> store" where
  "poblar_personas lower gen db cantidad =
     (let registros = map (\<lambda>i. fake_persona lower (gen i)) [0..<nat cantidad]
      in case db_insert_all db registros of
           Inl e \<Rightarrow> (Inl e, db)
         | Inr db' \<Rightarrow> (Inr (int (length registros)), db'))"

subsection \<open>Statistics\<close>





record edad_stats =
  edad_promedio :: int
  edad_minima :: int
  edad_maxima :: int

text \<open>Python compares the pairs \<open>(month, day)\<close> lexicographically.\<close>

definition tuple_lt :: "int \<times> int \<Rightarrow> int \<times> int \<Rightarrow> bool" where
  "tuple_lt a b = (fst a < fst b \<or> (fst a = fst b \<and> snd a < snd b))"

text \<open>The age expression of the loop; a Python \<open>bool\<close> subtracts as \<open>1\<close> or \<open>0\<close>.\<close>

definition edad :: "date \<Rightarrow> date \<Rightarrow> int" where
  "edad hoy b =
     year hoy - year b - (if tuple_lt (month hoy, day hoy) (month b, day b) then 1 else 0)"

fun edades_loop :: "date \<Rightarrow> persona list \<Rightarrow> int list \<Rightarrow> int list" where
  "edades_loop hoy [] edades = edades"
| "edades_loop hoy (p # ps) edades =
     (case birth_date p of
        None \<Rightarrow> edades_loop hoy ps edades
      | Some b \<Rightarrow> edades_loop hoy ps (edades @ [edad hoy b]))"

text \<open>Python's \<open>min\<close> and \<open>max\<close> of a list that is not empty, scanning from the left.\<close>

fun py_min :: "int list \<Rightarrow> int" where
  "py_min [] = 0"
| "py_min (x # xs) = fold (\<lambda>y m. if y < m then y else m) xs x"

fun py_max :: "int list \<Rightarrow> int" where
  "py_max [] = 0"
| "py_max (x # xs) = fold (\<lambda>y m. if y > m then y else m) xs x"

text \<open>\<open>hoy\<close> is \<open>date.today()\<close>. Python's \<open>//\<close> on integers is floor division, as \<open>div\<close> is.\<close>

definition get_stats_edad :: "date \<Rightarrow> store \<Rightarrow> edad_stats" where
  "get_stats_edad hoy db =
     (if rows db = [] then \<lparr>edad_promedio = 0, edad_minima = 0, edad_maxima = 0\<rparr>
      else (let edades = edades_loop hoy (rows db) []
            in if edades = [] then \<lparr>edad_promedio = 0, edad_minima = 0, edad_maxima = 0\<rparr>
               else \<lparr>edad_promedio = sum_list edades div int (length edades),
                     edad_minima = py_min edades,
                     edad_maxima = py_max edades\<rparr>))"

subsection \<open>Search\<close>

text \<open>
  The two properties of the storage engine that \<open>LIKE\<close> depends on: how it folds the case
  of a character before comparing (the identity for a case-sensitive engine), and
  whether a backslash in a pattern escapes the next character when no \<open>ESCAPE\<close> clause is
  given.
\<close>

record engine =
  case_fold :: "char \<Rightarrow> char"
  backslash_escape :: bool

text \<open>
  SQL's \<open>s LIKE pat\<close>: \<open>%\<close> stands for any run of characters, \<open>_\<close> for exactly one.
\<close>

fun sql_like :: "engine \<Rightarrow> string \<Rightarrow> string \<Rightarrow> bool" where
  "sql_like eng [] s = (s = [])"
| "sql_like eng (p # ps) s =
     (if backslash_escape eng \<and> p = CHR 0x5C then
        (case ps of
           [] \<Rightarrow> False
         | q # qs \<Rightarrow> (case s of
                        [] \<Rightarrow> False
                      | c # cs \<Rightarrow> case_fold eng c = case_fold eng q \<and> sql_like eng qs cs))
      else if p = CHR ''%'' then
        (sql_like eng ps s \<or> (case s of [] \<Rightarrow> False | c # cs \<Rightarrow> sql_like eng (p # ps) cs))
      else if p = CHR ''_'' then
        (case s of [] \<Rightarrow> False | c # cs \<Rightarrow> sql_like eng ps cs)
      else
        (case s of [] \<Rightarrow> False | c # cs \<Rightarrow> case_fold eng c = case_fold eng p \<and> sql_like eng ps cs))"

declare sql_like.simps [simp del]

text \<open>
  SQLAlchemy's \<open>column.contains(other)\<close> renders \<open>column LIKE '%' || other || '%'\<close>; its
  \<open>autoescape\<close> flag is off unless asked for, so the characters of \<open>other\<close> are part of the
  pattern as they are. A \<open>NULL\<close> column makes the comparison \<open>NULL\<close>, which selects
  nothing and which \<open>OR\<close> treats as false whenever it decides the row.
\<close>

definition contains :: "engine \<Rightarrow> string option \<Rightarrow> string \<Rightarrow> bool" where
  "contains eng column other =
     (case column of
        None \<Rightarrow> False
      | Some s \<Rightarrow> sql_like eng (''%'' @ other @ ''%'') s)"

definition search_personas :: "engine \<Rightarrow> store \<Rightarrow> string \<Rightarrow> persona list" where
  "search_personas eng db termino =
     filter (\<lambda>p. contains eng (Some (first_name p)) termino
               \<or> contains eng (Some (last_name p)) termino
               \<or> contains eng (email p) termino)
       (rows db)"

subsection \<open>Access by identifier\<close>

definition get_persona :: "store \<Rightarrow> int \<Rightarrow> (error + persona) \<times> store" where
  "get_persona db i =
     (case find (\<lambda>r. persona_id r = i) (rows db) of
        None \<Rightarrow> (Inl PersonaNotFoundError, db)
      | Some obj \<Rightarrow> (Inr obj, db))"

text \<open>The loop \<open>setattr(obj, field, value)\<close> over the fields that were supplied.\<close>

definition set_fields :: "persona_update \<Rightarrow> persona \<Rightarrow> persona" where
  "set_fields data obj =
     obj\<lparr>first_name := (case pu_first_name data of None \<Rightarrow> first_name obj | Some v \<Rightarrow> v),
         last_name := (case pu_last_name data of None \<Rightarrow> last_name obj | Some v \<Rightarrow> v),
         email := (case pu_email data of None \<Rightarrow> email obj | Some v \<Rightarrow> Some v),
         phone := (case pu_phone data of None \<Rightarrow> phone obj | Some v \<Rightarrow> v),
         birth_date := (case pu_birth_date data of None \<Rightarrow> birth_date obj | Some v \<Rightarrow> v),
         is_active := (case pu_is_active data of None \<Rightarrow> is_active obj | Some v \<Rightarrow> v),
         notes_p := (case pu_notes data of None \<Rightarrow> notes_p obj | Some v \<Rightarrow> v)\<rparr>"

definition update_persona ::
  "store \<Rightarrow> int \<Rightarrow> persona_update \<Rightarrow> (error + persona) \<times> store" where
  "update_persona db i data =
     (case find (\<lambda>r. persona_id r = i) (rows db) of
        None \<Rightarrow> (Inl PersonaNotFoundError, db)
      | Some obj \<Rightarrow>
          (if (case pu_email data of
                 None \<Rightarrow> False
               | Some e \<Rightarrow> Some e \<noteq> email obj
                   \<and> find (\<lambda>r. email r = Some e \<and> persona_id r \<noteq> i) (rows db) \<noteq> None)
           then (Inl EmailAlreadyExistsError, db)
           else (let obj' = set_fields data obj
                 in case db_update db obj' of
                      Inl e \<Rightarrow> (Inl EmailAlreadyExistsError, db)
                    | Inr db' \<Rightarrow> (Inr obj', db'))))"

definition delete_persona :: "store \<Rightarrow> int \<Rightarrow> (error + unit) \<times> store" where
  "delete_persona db i =
     (case find (\<lambda>r. persona_id r = i) (rows db) of
        None \<Rightarrow> (Inl PersonaNotFoundError, db)
      | Some obj \<Rightarrow> (Inr (), db_delete db (persona_id obj)))"

text \<open>The bulk \<open>DELETE\<close> reports the number of rows it matched.\<close>

definition reset_personas :: "store \<Rightarrow> int \<times> store" where
  "reset_personas db = (int (length (rows db)), db\<lparr>rows := []\<rparr>)"

section \<open>Store invariants and the operations as one step\<close>

text \<open>
  Modelled from the spec: the identifier is the primary key of the table, assigned by
  the engine and unique; the counter lies above every identifier handed out.
\<close>

definition primary_key_ok :: "store \<Rightarrow> bool" where
  "primary_key_ok db =
     (distinct (map persona_id (rows db)) \<and> list_all (\<lambda>r. persona_id r < next_id db) (rows db))"

text \<open>No email occurs on two rows; rows without an email are left out.\<close>

definition emails_unique :: "persona list \<Rightarrow> bool" where
  "emails_unique rs = distinct (filter (\<lambda>e. e \<noteq> None) (map email rs))"

definition store_ok :: "store \<Rightarrow> bool" where
  "store_ok db = (primary_key_ok db \<and> emails_unique (rows db))"

text \<open>The operations that write to the store, and the store each of them leaves.\<close>

datatype operation =
    Create persona_create
  | Update int persona_update
  | BulkPopulate "nat \<Rightarrow> draw" int
  | Delete int
  | ResetAll

fun run_operation :: "(string \<Rightarrow> string) \<Rightarrow> operation \<Rightarrow> store \<Rightarrow> store" where
  "run_operation lower (Create payload) db = snd (create_persona db payload)"
| "run_operation lower (Update i data) db = snd (update_persona db i data)"
| "run_operation lower (BulkPopulate gen cantidad) db = snd (poblar_personas lower gen db cantidad)"
| "run_operation lower (Delete i) db = snd (delete_persona db i)"
| "run_operation lower ResetAll db = snd (reset_personas db)"

section \<open>The wording of the spec\<close>




text \<open>
  A search term that \<open>LIKE\<close> reads literally: no wildcard in it, and no backslash where
  the engine escapes with one.
\<close>

definition literal_term :: "engine \<Rightarrow> string \<Rightarrow> bool" where
  "literal_term eng t =
     list_all (\<lambda>c. c \<noteq> CHR ''%'' \<and> c \<noteq> CHR ''_'' \<and> \<not> (backslash_escape eng \<and> c = CHR 0x5C)) t"

section \<open>Example data\<close>

definition ana :: persona where
  "ana = \<lparr>persona_id = 1, first_name = ''Ana'', last_name = ''Torres'',
          email = Some ''ana.torres@gmail.com'', phone = None,
          birth_date = Some \<lparr>year = 1990, month = 5, day = 17\<rparr>,
          is_active = True, notes_p = None\<rparr>"

definition luis :: persona where
  "luis = \<lparr>persona_id = 2, first_name = ''Luis'', last_name = ''Ruiz'',
           email = Some ''luis.ruiz@yahoo.com'', phone = Some ''600123456'',
           birth_date = None, is_active = False, notes_p = None\<rparr>"

definition eva :: persona where
  "eva = \<lparr>persona_id = 3, first_name = ''Eva'', last_name = ''Castro'',
          email = Some ''eva.castro@yahoo.com'', phone = Some ''600333444'',
          birth_date = Some \<lparr>year = 1975, month = 1, day = 2\<rparr>,
          is_active = False, notes_p = Some ''Hola.''\<rparr>"

definition db_two :: store where
  "db_two = \<lparr>rows = [ana, luis], next_id = 3\<rparr>"

definition create_ana :: persona_create where
  "create_ana = \<lparr>pc_first_name = ''Ana'', pc_last_name = ''Torres'',
                 pc_email = ''ana.torres@gmail.com'', pc_phone = None, pc_birth_date = None,
                 pc_is_active = True, pc_notes = None\<rparr>"

definition create_eva :: persona_create where
  "create_eva = \<lparr>pc_first_name = ''Eva'', pc_last_name = ''Castro'',
                 pc_email = ''eva.castro@yahoo.com'', pc_phone = Some ''600333444'',
                 pc_birth_date = Some \<lparr>year = 1975, month = 1, day = 2\<rparr>,
                 pc_is_active = False, pc_notes = Some ''Hola.''\<rparr>"

definition no_change :: persona_update where
  "no_change = \<lparr>pu_first_name = None, pu_last_name = None, pu_email = None, pu_phone = None,
                 pu_birth_date = None, pu_is_active = None, pu_notes = None\<rparr>"

definition update_email_luis :: persona_update where
  "update_email_luis = no_change\<lparr>pu_email := Some ''luis.ruiz@yahoo.com''\<rparr>"

definition update_email_same :: persona_update where
  "update_email_same =
     no_change\<lparr>pu_email := Some ''ana.torres@gmail.com'', pu_phone := Some (Some ''600999888'')\<rparr>"

text \<open>\<open>str.lower\<close> on strings of ASCII characters.\<close>

definition lower_ascii :: "string \<Rightarrow> string" where
  "lower_ascii s =
     map (\<lambda>c. case map_of (zip ''ABCDEFGHIJKLMNOPQRSTUVWXYZ'' ''abcdefghijklmnopqrstuvwxyz'') c of
                 None \<Rightarrow> c
               | Some l \<Rightarrow> l) s"

definition draw_ana :: draw where
  "draw_ana = \<lparr>fk_first_name = ''Ana'', fk_last_name = ''Torres'', rnd_dominio = 0,
               fk_phone_number = ''600111222'',
               fk_date_of_birth = \<lparr>year = 1990, month = 5, day = 17\<rparr>,
               rnd_is_active = 0, fk_sentence = ''Hola.'', rnd_notes = 1\<rparr>"

definition draw_eva :: draw where
  "draw_eva = \<lparr>fk_first_name = ''Eva'', fk_last_name = ''Castro'', rnd_dominio = 6,
               fk_phone_number = ''600333444'',
               fk_date_of_birth = \<lparr>year = 1975, month = 1, day = 2\<rparr>,
               rnd_is_active = 1, fk_sentence = ''Hola.'', rnd_notes = 0\<rparr>"

definition hoy_2026 :: date where
  "hoy_2026 = \<lparr>year = 2026, month = 11, day = 4\<rparr>"








text \<open>An engine that compares case-sensitively and has no default escape character.\<close>

definition plain_engine :: engine where
  "plain_engine = \<lparr>case_fold = (\<lambda>c. c), backslash_escape = False\<rparr>"

section \<open>Lookup by identifier\<close>

lemma find_id_None: "i \<notin> persona_id ` set rs \<Longrightarrow> find (\<lambda>r. persona_id r = i) rs = None"
  by (auto simp: find_None_iff)

lemma find_id_Some:
  "distinct (map persona_id rs) \<Longrightarrow> r \<in> set rs \<Longrightarrow>
   find (\<lambda>x. persona_id x = persona_id r) rs = Some r"
proof (induction rs)
  case Nil
  then show ?case by simp
next
  case (Cons a rs)
  show ?case
  proof (cases "a = r")
    case True
    then show ?thesis by simp
  next
    case False
    with Cons.prems have "r \<in> set rs" "persona_id a \<noteq> persona_id r" by force+
    with Cons show ?thesis by simp
  qed
qed

lemma filter_id_remove1:
  "distinct (map persona_id rs) \<Longrightarrow> r \<in> set rs \<Longrightarrow>
   filter (\<lambda>x. persona_id x \<noteq> persona_id r) rs = remove1 r rs"
proof (induction rs)
  case Nil
  then show ?case by simp
next
  case (Cons a rs)
  show ?case
  proof (cases "a = r")
    case True
    with Cons.prems have "persona_id r \<notin> persona_id ` set rs" by simp
    then have "\<forall>x\<in>set rs. persona_id x \<noteq> persona_id r" by (metis imageI)
    then have "filter (\<lambda>x. persona_id x \<noteq> persona_id r) rs = rs" by (simp add: filter_id_conv)
    with True show ?thesis by simp
  next
    case False
    with Cons.prems have "r \<in> set rs" "persona_id a \<noteq> persona_id r" by force+
    with Cons False show ?thesis by simp
  qed
qed

text \<open>
  Claim C4. For an identifier that matches no record, \<open>get_persona\<close>, \<open>delete_persona\<close> and
  \<open>update_persona\<close> each fail with \<open>PersonaNotFoundError\<close> and leave the store as it was.
  For the identifier of a stored record (identifiers being the primary key),
  \<open>get_persona\<close> returns that record and leaves the store as it was, and \<open>delete_persona\<close>
  removes that record and no other.
\<close>

theorem not_found_or_found:
  "(i \<notin> persona_id ` set (rows db) \<longrightarrow>
      get_persona db i = (Inl PersonaNotFoundError, db)
    \<and> delete_persona db i = (Inl PersonaNotFoundError, db)
    \<and> update_persona db i data = (Inl PersonaNotFoundError, db))
 \<and> (primary_key_ok db \<and> r \<in> set (rows db) \<longrightarrow>
      get_persona db (persona_id r) = (Inr r, db)
    \<and> delete_persona db (persona_id r) = (Inr (), db\<lparr>rows := remove1 r (rows db)\<rparr>))"
  by (simp add: get_persona_def delete_persona_def update_persona_def find_id_None find_id_Some
      filter_id_remove1 primary_key_ok_def db_delete_def)

theorem not_found_or_found_witness:
  "get_persona db_two 7 = (Inl PersonaNotFoundError, db_two)
 \<and> delete_persona db_two 7 = (Inl PersonaNotFoundError, db_two)
 \<and> update_persona db_two 7 no_change = (Inl PersonaNotFoundError, db_two)
 \<and> get_persona db_two 1 = (Inr ana, db_two)
 \<and> delete_persona db_two 1 = (Inr (), \<lparr>rows = [luis], next_id = 3\<rparr>)"
proof -
  have h1: "7 \<notin> persona_id ` set (rows db_two)"
    by (simp add: db_two_def ana_def luis_def)
  have h2: "primary_key_ok db_two \<and> ana \<in> set (rows db_two)"
    by (simp add: primary_key_ok_def db_two_def ana_def luis_def)
  have e: "persona_id ana = 1"
    "db_two\<lparr>rows := remove1 ana (rows db_two)\<rparr> = \<lparr>rows = [luis], next_id = 3\<rparr>"
    by (simp_all add: db_two_def ana_def)
  show ?thesis
    using h1 h2 not_found_or_found [of 7 db_two no_change ana] e by simp
qed

section \<open>Reset\<close>

text \<open>
  Claim C9. For a store of \<open>N\<close> records, \<open>reset_personas\<close> returns \<open>N\<close> and leaves a store
  without records, whatever the records are.
\<close>

theorem reset_personas_all:
  "reset_personas db = (int (length (rows db)), db\<lparr>rows := []\<rparr>)
 \<and> fst (reset_personas db) = int (length (rows db))
 \<and> rows (snd (reset_personas db)) = []"
  by (simp add: reset_personas_def)

theorem reset_personas_all_witness:
  "fst (reset_personas db_two) = 2 \<and> rows (snd (reset_personas db_two)) = []"
  using reset_personas_all [of db_two] by (simp add: db_two_def)

section \<open>Email uniqueness\<close>

lemma find_email_iff:
  "(find (\<lambda>r. email r = Some e) rs \<noteq> None) = (Some e \<in> email ` set rs)"
  by (induction rs) auto

lemma unique_violation_iff:
  "unique_violation rs p = (email p \<noteq> None \<and> email p \<in> email ` set rs)"
  by (cases "email p") (simp_all add: unique_violation_def find_email_iff del: not_None_eq)

lemma emails_unique_Nil: "emails_unique []"
  by (simp add: emails_unique_def)

lemma emails_unique_Cons:
  "emails_unique (a # rs) = ((email a \<noteq> None \<longrightarrow> email a \<notin> email ` set rs) \<and> emails_unique rs)"
  by (auto simp: emails_unique_def)

lemma emails_unique_snoc:
  "emails_unique (rs @ [a]) = ((email a \<noteq> None \<longrightarrow> email a \<notin> email ` set rs) \<and> emails_unique rs)"
  by (auto simp: emails_unique_def)

lemma emails_unique_filter: "emails_unique rs \<Longrightarrow> emails_unique (filter Q rs)"
  by (induction rs) (auto simp: emails_unique_Cons emails_unique_Nil)

text \<open>
  With identifiers as primary key, \<open>emails_unique\<close> says that two different records never
  carry the same email.
\<close>

lemma emails_unique_pairs:
  "distinct (map persona_id rs) \<Longrightarrow>
   emails_unique rs =
     (\<forall>r1\<in>set rs. \<forall>r2\<in>set rs.
        persona_id r1 \<noteq> persona_id r2 \<longrightarrow> email r1 \<noteq> None \<longrightarrow> email r1 \<noteq> email r2)"
proof (induction rs)
  case Nil
  show ?case by (simp add: emails_unique_Nil)
next
  case (Cons a rs)
  then have ids: "\<forall>r\<in>set rs. persona_id r \<noteq> persona_id a" and d: "distinct (map persona_id rs)"
    by (auto simp: image_iff)
  have IH: "emails_unique rs =
     (\<forall>r1\<in>set rs. \<forall>r2\<in>set rs.
        persona_id r1 \<noteq> persona_id r2 \<longrightarrow> email r1 \<noteq> None \<longrightarrow> email r1 \<noteq> email r2)"
    using Cons.IH d by simp
  show ?case
    unfolding emails_unique_Cons IH using ids
    by (auto simp: image_iff) metis+
qed

subsection \<open>The storage engine keeps the invariants\<close>

lemma db_insert_Inr:
  "db_insert db p = Inr (obj, db') \<Longrightarrow>
   \<not> unique_violation (rows db) p \<and> obj = p\<lparr>persona_id := next_id db\<rparr>
   \<and> db' = \<lparr>rows = rows db @ [obj], next_id = next_id db + 1\<rparr>"
  by (auto simp: db_insert_def Let_def split: if_splits)

lemma db_insert_ok:
  assumes "store_ok db" and "db_insert db p = Inr (obj, db')"
  shows "store_ok db'"
proof -
  from assms(2) have nv: "\<not> unique_violation (rows db) p"
    and obj: "obj = p\<lparr>persona_id := next_id db\<rparr>"
    and db': "db' = \<lparr>rows = rows db @ [obj], next_id = next_id db + 1\<rparr>"
    using db_insert_Inr by blast+
  from assms(1) have d: "distinct (map persona_id (rows db))"
    and lt: "\<forall>r\<in>set (rows db). persona_id r < next_id db"
    and u: "emails_unique (rows db)"
    by (simp_all add: store_ok_def primary_key_ok_def list_all_iff)
  from lt have fresh: "next_id db \<notin> persona_id ` set (rows db)" by force
  have "primary_key_ok db'"
    using d lt fresh by (auto simp: primary_key_ok_def db' obj list_all_iff)
  moreover have "emails_unique (rows db')"
    using nv u by (auto simp: db' obj emails_unique_snoc unique_violation_iff)
  ultimately show ?thesis by (simp add: store_ok_def)
qed

lemma db_insert_all_ok:
  "store_ok db \<Longrightarrow> db_insert_all db ps = Inr db' \<Longrightarrow> store_ok db'"
proof (induction ps arbitrary: db)
  case Nil
  then show ?case by simp
next
  case (Cons p ps)
  from Cons.prems(2) obtain obj db1 where i: "db_insert db p = Inr (obj, db1)"
    and r: "db_insert_all db1 ps = Inr db'"
    by (auto split: sum.splits)
  from db_insert_ok [OF Cons.prems(1) i] r show ?case by (rule Cons.IH)
qed

lemma db_update_Inr:
  "db_update db obj = Inr db' \<Longrightarrow>
   \<not> unique_violation (filter (\<lambda>r. persona_id r \<noteq> persona_id obj) (rows db)) obj
   \<and> db' = db\<lparr>rows := map (\<lambda>r. if persona_id r = persona_id obj then obj else r) (rows db)\<rparr>"
  by (auto simp: db_update_def split: if_splits)

lemma db_update_ok:
  assumes "store_ok db" and "db_update db obj = Inr db'"
  shows "store_ok db'"
proof -
  let ?f = "\<lambda>r. if persona_id r = persona_id obj then obj else r"
  from assms(2) have nv: "\<not> unique_violation (filter (\<lambda>r. persona_id r \<noteq> persona_id obj) (rows db)) obj"
    and db': "db' = db\<lparr>rows := map ?f (rows db)\<rparr>"
    using db_update_Inr by blast+
  from assms(1) have d: "distinct (map persona_id (rows db))"
    and lt: "list_all (\<lambda>r. persona_id r < next_id db) (rows db)"
    and u: "emails_unique (rows db)"
    by (simp_all add: store_ok_def primary_key_ok_def)
  have ids: "map persona_id (map ?f (rows db)) = map persona_id (rows db)"
    by auto
  have rows': "rows db' = map ?f (rows db)" and next': "next_id db' = next_id db"
    by (simp_all add: db')
  have d': "distinct (map persona_id (rows db'))"
    using d by (simp only: rows' ids)
  have lt': "list_all (\<lambda>r. persona_id r < next_id db') (rows db')"
  proof -
    have "list_all (\<lambda>i. i < next_id db) (map persona_id (rows db))"
      using lt by (simp add: list_all_iff)
    then have "list_all (\<lambda>i. i < next_id db) (map persona_id (map ?f (rows db)))"
      by (simp only: ids)
    then have "list_all (\<lambda>i. i < next_id db') (map persona_id (rows db'))"
      by (simp only: rows' next')
    then show ?thesis by (simp add: list_all_iff)
  qed
  from nv have other: "\<forall>r\<in>set (rows db). persona_id r \<noteq> persona_id obj \<longrightarrow>
      email obj \<noteq> None \<longrightarrow> email r \<noteq> email obj"
    by (auto simp: unique_violation_iff image_iff)
  from u d have pairs: "\<forall>r1\<in>set (rows db). \<forall>r2\<in>set (rows db).
        persona_id r1 \<noteq> persona_id r2 \<longrightarrow> email r1 \<noteq> None \<longrightarrow> email r1 \<noteq> email r2"
    by (simp add: emails_unique_pairs)
  have "\<forall>r1\<in>set (rows db'). \<forall>r2\<in>set (rows db').
        persona_id r1 \<noteq> persona_id r2 \<longrightarrow> email r1 \<noteq> None \<longrightarrow> email r1 \<noteq> email r2"
  proof (intro ballI impI)
    fix r1 r2
    assume r1: "r1 \<in> set (rows db')" and r2: "r2 \<in> set (rows db')"
      and ne: "persona_id r1 \<noteq> persona_id r2" and e: "email r1 \<noteq> None"
    from r1 obtain s1 where s1: "s1 \<in> set (rows db)" "r1 = ?f s1" by (auto simp: rows')
    from r2 obtain s2 where s2: "s2 \<in> set (rows db)" "r2 = ?f s2" by (auto simp: rows')
    have i1: "persona_id r1 = persona_id s1" and i2: "persona_id r2 = persona_id s2"
      using s1 s2 by auto
    show "email r1 \<noteq> email r2"
    proof (cases "persona_id s1 = persona_id obj")
      case True
      then have "r1 = obj" using s1 by simp
      moreover from True ne i1 i2 have "persona_id s2 \<noteq> persona_id obj" by simp
      then have "r2 = s2" using s2 by simp
      ultimately show ?thesis using other s2 e \<open>persona_id s2 \<noteq> persona_id obj\<close> by metis
    next
      case False
      then have r1s: "r1 = s1" using s1 by simp
      show ?thesis
      proof (cases "persona_id s2 = persona_id obj")
        case True
        then have "r2 = obj" using s2 by simp
        then show ?thesis using other s1 r1s False e by metis
      next
        case False
        then have "r2 = s2" using s2 by simp
        then show ?thesis using pairs s1 s2 r1s ne e by metis
      qed
    qed
  qed
  then have "emails_unique (rows db')"
    using d' by (simp add: emails_unique_pairs)
  then show ?thesis using d' lt' by (simp add: store_ok_def primary_key_ok_def)
qed

lemma db_delete_ok: "store_ok db \<Longrightarrow> store_ok (db_delete db i)"
  by (simp add: store_ok_def primary_key_ok_def db_delete_def distinct_map_filter
      emails_unique_filter list_all_iff)

subsection \<open>Every operation keeps the invariants\<close>

lemma create_persona_ok: "store_ok db \<Longrightarrow> store_ok (snd (create_persona db payload))"
  by (auto simp: create_persona_def Let_def split: sum.splits dest: db_insert_ok)

lemma update_persona_ok: "store_ok db \<Longrightarrow> store_ok (snd (update_persona db i data))"
  by (auto simp: update_persona_def Let_def split: option.splits sum.splits dest: db_update_ok)

lemma poblar_personas_ok: "store_ok db \<Longrightarrow> store_ok (snd (poblar_personas lower gen db cantidad))"
  by (auto simp: poblar_personas_def Let_def split: sum.splits dest: db_insert_all_ok)

lemma delete_persona_ok: "store_ok db \<Longrightarrow> store_ok (snd (delete_persona db i))"
  by (simp add: delete_persona_def db_delete_ok split: option.splits)

lemma reset_personas_ok: "store_ok db \<Longrightarrow> store_ok (snd (reset_personas db))"
  by (simp add: reset_personas_def store_ok_def primary_key_ok_def emails_unique_Nil)

lemma run_operation_ok: "store_ok db \<Longrightarrow> store_ok (run_operation lower op db)"
  by (cases op)
    (simp_all add: create_persona_ok update_persona_ok poblar_personas_ok delete_persona_ok
      reset_personas_ok)

lemma db_insert_all_unique:
  "emails_unique (rows db) \<Longrightarrow> db_insert_all db ps = Inr db' \<Longrightarrow> emails_unique (rows db')"
proof (induction ps arbitrary: db)
  case Nil
  then show ?case by simp
next
  case (Cons p ps)
  from Cons.prems(2) obtain obj db1 where i: "db_insert db p = Inr (obj, db1)"
    and r: "db_insert_all db1 ps = Inr db'"
    by (auto split: sum.splits)
  from i have "\<not> unique_violation (rows db) p" and "obj = p\<lparr>persona_id := next_id db\<rparr>"
    and "db1 = \<lparr>rows = rows db @ [obj], next_id = next_id db + 1\<rparr>"
    using db_insert_Inr by blast+
  with Cons.prems(1) have "emails_unique (rows db1)"
    by (auto simp: emails_unique_snoc unique_violation_iff)
  from this r show ?case by (rule Cons.IH)
qed

lemma poblar_personas_unique:
  "emails_unique (rows db) \<Longrightarrow> emails_unique (rows (snd (poblar_personas lower gen db cantidad)))"
  by (auto simp: poblar_personas_def Let_def split: sum.splits dest: db_insert_all_unique)

lemma store_ok_db_two: "store_ok db_two"
  by (simp add: store_ok_def primary_key_ok_def emails_unique_def db_two_def ana_def luis_def)

lemma fake_eva: "fake_persona lower_ascii draw_eva = eva\<lparr>persona_id := 0\<rparr>"
  by (simp add: fake_persona_def draw_eva_def lower_ascii_def random_choice_def
      dominios_validos_def Persona_def eva_def Let_def)

lemma poblar_eva:
  "poblar_personas lower_ascii (\<lambda>i. draw_eva) db_two 1 = (Inr 1, \<lparr>rows = [ana, luis, eva], next_id = 4\<rparr>)"
  by (simp add: poblar_personas_def fake_eva db_insert_def unique_violation_def db_two_def
      ana_def luis_def eva_def Let_def)

text \<open>
  Claim C1. Email uniqueness is an invariant of the store. From a store that has unique
  identifiers and unique emails, each of Create, Update, BulkPopulate, Delete and
  ResetAll leaves a store that has them again, whether the operation succeeds or fails:
  no two different records of the resulting store carry the same email. In particular
  BulkPopulate, for every count from 1 to 1000, leaves the emails unique in every store
  in which they were unique. For BulkPopulate the service makes no check of its own; it
  is the uniqueness constraint of the table that rejects a batch with a duplicate, and
  the store then stays as it was.
\<close>

theorem email_uniqueness_invariant:
  "(store_ok db \<longrightarrow>
      store_ok (run_operation lower op db)
    \<and> (\<forall>r1\<in>set (rows (run_operation lower op db)). \<forall>r2\<in>set (rows (run_operation lower op db)).
          persona_id r1 \<noteq> persona_id r2 \<longrightarrow> email r1 \<noteq> None \<longrightarrow> email r1 \<noteq> email r2))
 \<and> (emails_unique (rows db) \<and> 1 \<le> cantidad \<and> cantidad \<le> 1000 \<longrightarrow>
      emails_unique (rows (snd (poblar_personas lower gen db cantidad))))"
proof (intro conjI impI)
  assume ok: "store_ok db"
  then show ok': "store_ok (run_operation lower op db)"
    by (rule run_operation_ok)
  then have "emails_unique (rows (run_operation lower op db))"
    and "distinct (map persona_id (rows (run_operation lower op db)))"
    by (simp_all add: store_ok_def primary_key_ok_def)
  then show "\<forall>r1\<in>set (rows (run_operation lower op db)). \<forall>r2\<in>set (rows (run_operation lower op db)).
          persona_id r1 \<noteq> persona_id r2 \<longrightarrow> email r1 \<noteq> None \<longrightarrow> email r1 \<noteq> email r2"
    by (simp add: emails_unique_pairs)
next
  assume "emails_unique (rows db) \<and> 1 \<le> cantidad \<and> cantidad \<le> 1000"
  then show "emails_unique (rows (snd (poblar_personas lower gen db cantidad)))"
    by (simp add: poblar_personas_unique)
qed

theorem email_uniqueness_invariant_witness:
  "store_ok db_two
 \<and> emails_unique (rows db_two) \<and> (1::int) \<le> 1 \<and> (1::int) \<le> 1000
 \<and> run_operation lower_ascii (BulkPopulate (\<lambda>i. draw_eva) 1) db_two
      = \<lparr>rows = [ana, luis, eva], next_id = 4\<rparr>
 \<and> store_ok \<lparr>rows = [ana, luis, eva], next_id = 4\<rparr>
 \<and> emails_unique [ana, luis, eva]"
proof -
  have u: "emails_unique (rows db_two)"
    using store_ok_db_two by (simp add: store_ok_def)
  show ?thesis
    using store_ok_db_two u
      email_uniqueness_invariant [of db_two lower_ascii "BulkPopulate (\<lambda>i. draw_eva) 1" 1
        "\<lambda>i. draw_eva"]
    by (simp add: poblar_eva)
qed

section \<open>Create\<close>

lemma find_email_None: "(find (\<lambda>r. email r = Some e) rs = None) = (\<forall>r\<in>set rs. email r \<noteq> Some e)"
  by (induction rs) auto

text \<open>
  Claim C2. If some stored record has the email of the payload, \<open>create_persona\<close> fails
  with \<open>EmailAlreadyExistsError\<close> and the store is unchanged. Otherwise it appends one
  record that carries the fields of the payload and the identifier assigned by the
  engine (an identifier no stored record has), and returns that record. A second Create
  with the same email then fails with \<open>EmailAlreadyExistsError\<close>, and exactly one record
  with that email is stored.
\<close>

theorem create_persona_spec:
  "((\<exists>r\<in>set (rows db). email r = Some (pc_email payload)) \<longrightarrow>
      create_persona db payload = (Inl EmailAlreadyExistsError, db))
 \<and> (\<not> (\<exists>r\<in>set (rows db). email r = Some (pc_email payload)) \<longrightarrow>
      (let obj = \<lparr>persona_id = next_id db, first_name = pc_first_name payload,
                  last_name = pc_last_name payload, email = Some (pc_email payload),
                  phone = pc_phone payload, birth_date = pc_birth_date payload,
                  is_active = pc_is_active payload, notes_p = pc_notes payload\<rparr>;
           db' = \<lparr>rows = rows db @ [obj], next_id = next_id db + 1\<rparr>
       in create_persona db payload = (Inr obj, db')
        \<and> (primary_key_ok db \<longrightarrow> persona_id obj \<notin> persona_id ` set (rows db))
        \<and> (pc_email again = pc_email payload \<longrightarrow>
              create_persona db' again = (Inl EmailAlreadyExistsError, db')
            \<and> length (filter (\<lambda>r. email r = Some (pc_email payload)) (rows db')) = 1)))"
proof (intro conjI impI)
  assume "\<exists>r\<in>set (rows db). email r = Some (pc_email payload)"
  then have "find (\<lambda>r. email r = Some (pc_email payload)) (rows db) \<noteq> None"
    by (simp add: find_email_None del: not_None_eq)
  then show "create_persona db payload = (Inl EmailAlreadyExistsError, db)"
    by (simp add: create_persona_def del: not_None_eq)
next
  let ?obj = "\<lparr>persona_id = next_id db, first_name = pc_first_name payload,
                  last_name = pc_last_name payload, email = Some (pc_email payload),
                  phone = pc_phone payload, birth_date = pc_birth_date payload,
                  is_active = pc_is_active payload, notes_p = pc_notes payload\<rparr>"
  let ?db' = "\<lparr>rows = rows db @ [?obj], next_id = next_id db + 1\<rparr>"
  assume free: "\<not> (\<exists>r\<in>set (rows db). email r = Some (pc_email payload))"
  then have none: "find (\<lambda>r. email r = Some (pc_email payload)) (rows db) = None"
    by (simp add: find_email_None)
  have nv: "\<not> unique_violation (rows db) (Persona (pc_first_name payload) (pc_last_name payload)
      (pc_email payload) (pc_phone payload) (pc_birth_date payload) (pc_is_active payload)
      (pc_notes payload))"
    using none by (simp add: unique_violation_def Persona_def)
  have c: "create_persona db payload = (Inr ?obj, ?db')"
    using none nv by (simp add: create_persona_def db_insert_def Let_def Persona_def)
  have f: "primary_key_ok db \<longrightarrow> persona_id ?obj \<notin> persona_id ` set (rows db)"
    by (auto simp: primary_key_ok_def list_all_iff)
  have a: "pc_email again = pc_email payload \<longrightarrow>
              create_persona ?db' again = (Inl EmailAlreadyExistsError, ?db')
            \<and> length (filter (\<lambda>r. email r = Some (pc_email payload)) (rows ?db')) = 1"
  proof
    assume eq: "pc_email again = pc_email payload"
    have "find (\<lambda>r. email r = Some (pc_email again)) (rows ?db') \<noteq> None"
      by (simp add: find_email_None eq del: not_None_eq)
    then have "create_persona ?db' again = (Inl EmailAlreadyExistsError, ?db')"
      by (simp add: create_persona_def del: not_None_eq)
    moreover have "filter (\<lambda>r. email r = Some (pc_email payload)) (rows db) = []"
      using free by (simp add: filter_empty_conv)
    ultimately show "create_persona ?db' again = (Inl EmailAlreadyExistsError, ?db')
            \<and> length (filter (\<lambda>r. email r = Some (pc_email payload)) (rows ?db')) = 1"
      by simp
  qed
  show "let obj = ?obj; db' = \<lparr>rows = rows db @ [obj], next_id = next_id db + 1\<rparr>
       in create_persona db payload = (Inr obj, db')
        \<and> (primary_key_ok db \<longrightarrow> persona_id obj \<notin> persona_id ` set (rows db))
        \<and> (pc_email again = pc_email payload \<longrightarrow>
              create_persona db' again = (Inl EmailAlreadyExistsError, db')
            \<and> length (filter (\<lambda>r. email r = Some (pc_email payload)) (rows db')) = 1)"
    unfolding Let_def using c f a by blast
qed

theorem create_persona_spec_witness:
  "create_persona db_two create_ana = (Inl EmailAlreadyExistsError, db_two)
 \<and> create_persona db_two create_eva = (Inr eva, \<lparr>rows = [ana, luis, eva], next_id = 4\<rparr>)
 \<and> create_persona \<lparr>rows = [ana, luis, eva], next_id = 4\<rparr> create_eva
      = (Inl EmailAlreadyExistsError, \<lparr>rows = [ana, luis, eva], next_id = 4\<rparr>)"
proof -
  have h1: "\<exists>r\<in>set (rows db_two). email r = Some (pc_email create_ana)"
    by (simp add: db_two_def ana_def luis_def create_ana_def)
  have h2: "\<not> (\<exists>r\<in>set (rows db_two). email r = Some (pc_email create_eva))"
    by (simp add: db_two_def ana_def luis_def create_eva_def)
  show ?thesis
    using h1 h2 create_persona_spec [of db_two create_ana create_ana]
      create_persona_spec [of db_two create_eva create_eva]
    by (simp add: Let_def db_two_def create_eva_def eva_def)
qed

section \<open>Update\<close>

text \<open>
  Claim C3. For a stored record \<open>obj\<close>, in a store with unique identifiers and emails: an
  Update whose fields include an email that differs from the email of \<open>obj\<close> and that a
  record with another identifier already has fails with \<open>EmailAlreadyExistsError\<close> and
  leaves the whole store unchanged; an Update that supplies the email \<open>obj\<close> already has
  does not fail: it returns the record with the supplied fields set and stores it in
  place of \<open>obj\<close>.
\<close>

theorem update_persona_email_conflict:
  assumes "store_ok db" and "obj \<in> set (rows db)"
  shows "(pu_email data = Some e \<and> Some e \<noteq> email obj
          \<and> (\<exists>r\<in>set (rows db). persona_id r \<noteq> persona_id obj \<and> email r = Some e) \<longrightarrow>
            update_persona db (persona_id obj) data = (Inl EmailAlreadyExistsError, db))
       \<and> (pu_email data = Some e \<and> email obj = Some e \<longrightarrow>
            update_persona db (persona_id obj) data =
              (Inr (set_fields data obj),
               db\<lparr>rows := map (\<lambda>r. if persona_id r = persona_id obj then set_fields data obj else r)
                             (rows db)\<rparr>))"
proof (intro conjI impI)
  from assms have d: "distinct (map persona_id (rows db))" and u: "emails_unique (rows db)"
    by (simp_all add: store_ok_def primary_key_ok_def)
  from d assms(2) have f: "find (\<lambda>r. persona_id r = persona_id obj) (rows db) = Some obj"
    by (rule find_id_Some)
  {
    assume a: "pu_email data = Some e \<and> Some e \<noteq> email obj
          \<and> (\<exists>r\<in>set (rows db). persona_id r \<noteq> persona_id obj \<and> email r = Some e)"
    then have "find (\<lambda>r. email r = Some e \<and> persona_id r \<noteq> persona_id obj) (rows db) \<noteq> None"
      by (auto simp: find_None_iff simp del: not_None_eq)
    with a f show "update_persona db (persona_id obj) data = (Inl EmailAlreadyExistsError, db)"
      by (simp add: update_persona_def del: not_None_eq)
  }
  {
    assume a: "pu_email data = Some e \<and> email obj = Some e"
    let ?obj' = "set_fields data obj"
    have id': "persona_id ?obj' = persona_id obj" and em': "email ?obj' = Some e"
      using a by (simp_all add: set_fields_def)
    from u d have pairs: "\<forall>r1\<in>set (rows db). \<forall>r2\<in>set (rows db).
        persona_id r1 \<noteq> persona_id r2 \<longrightarrow> email r1 \<noteq> None \<longrightarrow> email r1 \<noteq> email r2"
      by (simp add: emails_unique_pairs)
    have "\<forall>r\<in>set (rows db). persona_id r \<noteq> persona_id obj \<longrightarrow> email r \<noteq> Some e"
      using pairs assms(2) a by (metis option.distinct(1))
    then have nv: "\<not> unique_violation (filter (\<lambda>r. persona_id r \<noteq> persona_id ?obj') (rows db)) ?obj'"
      by (auto simp: unique_violation_iff em' id' image_iff)
    show "update_persona db (persona_id obj) data =
              (Inr ?obj',
               db\<lparr>rows := map (\<lambda>r. if persona_id r = persona_id obj then ?obj' else r) (rows db)\<rparr>)"
      using f a nv by (simp add: update_persona_def db_update_def Let_def id')
  }
qed

theorem update_persona_email_conflict_witness:
  "update_persona db_two 1 update_email_luis = (Inl EmailAlreadyExistsError, db_two)
 \<and> update_persona db_two 1 update_email_same =
      (Inr (ana\<lparr>phone := Some ''600999888''\<rparr>),
       \<lparr>rows = [ana\<lparr>phone := Some ''600999888''\<rparr>, luis], next_id = 3\<rparr>)"
proof -
  have h: "ana \<in> set (rows db_two)"
    by (simp add: db_two_def)
  have h1: "pu_email update_email_luis = Some ''luis.ruiz@yahoo.com''
          \<and> Some ''luis.ruiz@yahoo.com'' \<noteq> email ana
          \<and> (\<exists>r\<in>set (rows db_two). persona_id r \<noteq> persona_id ana \<and> email r = Some ''luis.ruiz@yahoo.com'')"
    by (simp add: update_email_luis_def no_change_def db_two_def ana_def luis_def)
  have h2: "pu_email update_email_same = Some ''ana.torres@gmail.com''
          \<and> email ana = Some ''ana.torres@gmail.com''"
    by (simp add: update_email_same_def no_change_def ana_def)
  have i: "persona_id ana = 1" "persona_id luis = 2"
    by (simp_all add: ana_def luis_def)
  have s: "set_fields update_email_same ana = ana\<lparr>phone := Some ''600999888''\<rparr>"
    by (simp add: set_fields_def update_email_same_def no_change_def ana_def)
  show ?thesis
    using h1 h2
      update_persona_email_conflict [OF store_ok_db_two h, of update_email_luis "''luis.ruiz@yahoo.com''"]
      update_persona_email_conflict [OF store_ok_db_two h, of update_email_same "''ana.torres@gmail.com''"]
    by (simp add: i s db_two_def)
qed

section \<open>Age statistics\<close>

lemma edades_loop_eq:
  "edades_loop hoy ps acc =
     acc @ map (\<lambda>p. edad hoy (the (birth_date p))) (filter (\<lambda>p. birth_date p \<noteq> None) ps)"
  by (induction ps arbitrary: acc) (auto split: option.splits)

lemma py_min_eq: "xs \<noteq> [] \<Longrightarrow> py_min xs = Min (set xs)"
proof (cases xs)
  case Nil
  then show "xs \<noteq> [] \<Longrightarrow> ?thesis" by simp
next
  case (Cons x ys)
  have "(\<lambda>y m. if y < m then y else m) = (min :: int \<Rightarrow> int \<Rightarrow> int)"
    by (auto simp: fun_eq_iff min_def)
  then show ?thesis unfolding Cons by (simp only: py_min.simps Min.set_eq_fold)
qed

lemma py_max_eq: "xs \<noteq> [] \<Longrightarrow> py_max xs = Max (set xs)"
proof (cases xs)
  case Nil
  then show "xs \<noteq> [] \<Longrightarrow> ?thesis" by simp
next
  case (Cons x ys)
  have "(\<lambda>y m. if y > m then y else m) = (max :: int \<Rightarrow> int \<Rightarrow> int)"
    by (auto simp: fun_eq_iff max_def)
  then show ?thesis unfolding Cons by (simp only: py_max.simps Max.set_eq_fold)
qed

text \<open>
  Claim C5. For every store and every current date \<open>hoy\<close>, the ages considered are those
  of exactly the records that have a birth date, each age being the current year minus
  the year of birth, minus one if the current (month, day) precedes the (month, day) of
  birth. If there is no such record, in particular if the store is empty, the three
  values are \<open>0\<close>. Otherwise the average is the floor division of the sum of the ages by
  their number, and minimum and maximum are the least and the greatest age.
\<close>

theorem get_stats_edad_spec:
  "(let edades = map (\<lambda>p. edad hoy (the (birth_date p)))
                   (filter (\<lambda>p. birth_date p \<noteq> None) (rows db))
    in (edades = [] \<longrightarrow>
          get_stats_edad hoy db = \<lparr>edad_promedio = 0, edad_minima = 0, edad_maxima = 0\<rparr>)
     \<and> (edades \<noteq> [] \<longrightarrow>
          get_stats_edad hoy db =
            \<lparr>edad_promedio = sum_list edades div int (length edades),
             edad_minima = Min (set edades),
             edad_maxima = Max (set edades)\<rparr>))
 \<and> (rows db = [] \<longrightarrow>
      get_stats_edad hoy db = \<lparr>edad_promedio = 0, edad_minima = 0, edad_maxima = 0\<rparr>)
 \<and> edad hoy b =
      year hoy - year b
        - (if month hoy < month b \<or> (month hoy = month b \<and> day hoy < day b) then 1 else 0)"
proof -
  let ?edades = "map (\<lambda>p. edad hoy (the (birth_date p)))
                   (filter (\<lambda>p. birth_date p \<noteq> None) (rows db))"
  have loop: "edades_loop hoy (rows db) [] = ?edades"
    by (simp add: edades_loop_eq)
  have a: "?edades = [] \<longrightarrow>
          get_stats_edad hoy db = \<lparr>edad_promedio = 0, edad_minima = 0, edad_maxima = 0\<rparr>"
    by (simp add: get_stats_edad_def loop Let_def del: map_is_Nil_conv)
  have b: "?edades \<noteq> [] \<longrightarrow>
          get_stats_edad hoy db =
            \<lparr>edad_promedio = sum_list ?edades div int (length ?edades),
             edad_minima = Min (set ?edades),
             edad_maxima = Max (set ?edades)\<rparr>"
  proof
    assume ne: "?edades \<noteq> []"
    then have "rows db \<noteq> []" by auto
    then show "get_stats_edad hoy db =
            \<lparr>edad_promedio = sum_list ?edades div int (length ?edades),
             edad_minima = Min (set ?edades),
             edad_maxima = Max (set ?edades)\<rparr>"
      using ne py_min_eq [OF ne] py_max_eq [OF ne]
      by (simp only: get_stats_edad_def loop Let_def if_False)
  qed
  have c: "rows db = [] \<longrightarrow>
      get_stats_edad hoy db = \<lparr>edad_promedio = 0, edad_minima = 0, edad_maxima = 0\<rparr>"
    by (simp add: get_stats_edad_def)
  have d: "edad hoy b =
      year hoy - year b
        - (if month hoy < month b \<or> (month hoy = month b \<and> day hoy < day b) then 1 else 0)"
    by (simp add: edad_def tuple_lt_def)
  show ?thesis unfolding Let_def using a b c d by blast
qed

theorem get_stats_edad_spec_witness:
  "get_stats_edad hoy_2026 \<lparr>rows = [ana, luis, eva], next_id = 4\<rparr>
     = \<lparr>edad_promedio = 43, edad_minima = 36, edad_maxima = 51\<rparr>
 \<and> get_stats_edad hoy_2026 \<lparr>rows = [luis], next_id = 4\<rparr>
     = \<lparr>edad_promedio = 0, edad_minima = 0, edad_maxima = 0\<rparr>"
proof -
  have e: "edad hoy_2026 \<lparr>year = 1990, month = 5, day = 17\<rparr> = 36"
    "edad hoy_2026 \<lparr>year = 1975, month = 1, day = 2\<rparr> = 51"
    by (simp_all add: edad_def tuple_lt_def hoy_2026_def)
  show ?thesis
    using get_stats_edad_spec [of hoy_2026 "\<lparr>rows = [ana, luis, eva], next_id = 4\<rparr>" hoy_2026]
      get_stats_edad_spec [of hoy_2026 "\<lparr>rows = [luis], next_id = 4\<rparr>" hoy_2026]
    by (simp add: Let_def ana_def luis_def eva_def e)
qed

section \<open>Domain statistics\<close>











section \<open>Search\<close>

lemma sql_like_Nil: "sql_like eng [] s = (s = [])"
  by (simp add: sql_like.simps)

lemma sql_like_percent:
  "sql_like eng (CHR ''%'' # ps) s =
     (sql_like eng ps s \<or> (case s of [] \<Rightarrow> False | c # cs \<Rightarrow> sql_like eng (CHR ''%'' # ps) cs))"
  by (subst sql_like.simps) simp

lemma sql_like_underscore:
  "sql_like eng (CHR ''_'' # ps) s = (case s of [] \<Rightarrow> False | c # cs \<Rightarrow> sql_like eng ps cs)"
  by (subst sql_like.simps) simp

lemma sql_like_literal:
  "p \<noteq> CHR ''%'' \<Longrightarrow> p \<noteq> CHR ''_'' \<Longrightarrow> \<not> (backslash_escape eng \<and> p = CHR 0x5C) \<Longrightarrow>
   sql_like eng (p # ps) s =
     (case s of [] \<Rightarrow> False | c # cs \<Rightarrow> case_fold eng c = case_fold eng p \<and> sql_like eng ps cs)"
  by (subst sql_like.simps) auto

lemma like_percent: "sql_like eng ''%'' s"
  by (induction s) (simp_all add: sql_like_percent sql_like_Nil)

lemma like_percent_percent: "sql_like eng ''%%'' s"
  using like_percent by (simp add: sql_like_percent)

text \<open>
  Claim C10. With the empty string as the term the pattern is \<open>%%\<close>, which every first
  name matches: the search returns every stored record, in storage order.
\<close>

theorem search_empty_term:
  "search_personas eng db '''' = rows db"
  by (simp add: search_personas_def contains_def like_percent_percent)

theorem search_empty_term_witness:
  "search_personas plain_engine db_two [] = [ana, luis]"
  using search_empty_term [of plain_engine db_two] by (simp add: db_two_def)

subsection \<open>Terms without wildcards\<close>

lemma like_literal_prefix:
  "literal_term eng t \<Longrightarrow>
   sql_like eng (t @ ''%'') s = prefix (map (case_fold eng) t) (map (case_fold eng) s)"
proof (induction t arbitrary: s)
  case Nil
  then show ?case by (simp add: like_percent)
next
  case (Cons c t)
  then have c: "c \<noteq> CHR ''%''" "c \<noteq> CHR ''_''" "\<not> (backslash_escape eng \<and> c = CHR 0x5C)"
    and t: "literal_term eng t"
    by (simp_all add: literal_term_def)
  show ?case
  proof (cases s)
    case Nil
    then show ?thesis using c by (simp add: sql_like_literal)
  next
    case (Cons d s')
    then show ?thesis using c Cons.IH [OF t, of s'] by (auto simp: sql_like_literal)
  qed
qed

lemma like_percent_suffix:
  "sql_like eng (CHR ''%'' # ps) s = (\<exists>suf. suffix suf s \<and> sql_like eng ps suf)"
proof (induction s)
  case Nil
  then show ?case by (simp add: sql_like_percent)
next
  case (Cons c s)
  then show ?case
    by (subst sql_like_percent) (auto simp: suffix_Cons)
qed

lemma sublist_map_suffix:
  "sublist xs (map f s) = (\<exists>suf. suffix suf s \<and> prefix xs (map f suf))"
proof
  assume "sublist xs (map f s)"
  then obtain ys where ys: "suffix ys (map f s)" "prefix xs ys"
    by (auto simp: sublist_altdef')
  from ys(1) obtain zs where "map f s = zs @ ys" by (auto simp: suffix_def)
  then obtain s1 s2 where "s = s1 @ s2" "map f s2 = ys"
    by (auto simp: map_eq_append_conv)
  then show "\<exists>suf. suffix suf s \<and> prefix xs (map f suf)"
    using ys(2) by (auto simp: suffix_def)
next
  assume "\<exists>suf. suffix suf s \<and> prefix xs (map f suf)"
  then obtain suf where "suffix suf s" "prefix xs (map f suf)" by blast
  then have "suffix (map f suf) (map f s)" by (auto simp: suffix_def)
  then show "sublist xs (map f s)"
    using \<open>prefix xs (map f suf)\<close> by (auto simp: sublist_altdef')
qed

lemma contains_literal:
  "literal_term eng t \<Longrightarrow>
   contains eng (Some s) t = sublist (map (case_fold eng) t) (map (case_fold eng) s)"
  by (simp add: contains_def like_percent_suffix like_literal_prefix sublist_map_suffix)

text \<open>
  For a term that \<open>LIKE\<close> reads literally, the search returns exactly the records in which
  the term occurs as a substring of the first name, of the last name or of the email, up
  to the case folding of the engine.
\<close>

lemma search_personas_literal:
  assumes "literal_term eng termino"
  shows "search_personas eng db termino =
     filter (\<lambda>p. sublist (map (case_fold eng) termino) (map (case_fold eng) (first_name p))
               \<or> sublist (map (case_fold eng) termino) (map (case_fold eng) (last_name p))
               \<or> (case email p of
                     None \<Rightarrow> False
                   | Some e \<Rightarrow> sublist (map (case_fold eng) termino) (map (case_fold eng) e)))
       (rows db)"
proof -
  have "contains eng (email p) termino =
      (case email p of
         None \<Rightarrow> False
       | Some e \<Rightarrow> sublist (map (case_fold eng) termino) (map (case_fold eng) e))" for p :: persona
    using contains_literal [OF assms] by (cases "email p") (simp_all add: contains_def)
  then show ?thesis
    by (simp add: search_personas_def contains_literal [OF assms])
qed

subsection \<open>Terms with wildcards\<close>

text \<open>
  Claim C7. The search is to return exactly the records in which the term occurs as a
  substring of one of the three fields. With the term \<open>_\<close> it returns a record none of
  whose fields contains that character, on every engine: the term reaches \<open>LIKE\<close>
  unescaped and \<open>_\<close> stands for any one character.
\<close>

theorem search_personas_wildcard:
  "search_personas eng \<lparr>rows = [ana], next_id = 2\<rparr> ''_'' = [ana]
 \<and> first_name ana = ''Ana'' \<and> last_name ana = ''Torres''
 \<and> email ana = Some ''ana.torres@gmail.com''
 \<and> CHR ''_'' \<notin> set ''Ana'' \<and> CHR ''_'' \<notin> set ''Torres''
 \<and> CHR ''_'' \<notin> set ''ana.torres@gmail.com''"
proof -
  have "sql_like eng ''%_%'' ''Ana''"
    by (simp add: sql_like_percent sql_like_underscore sql_like_Nil)
  then show ?thesis
    by (simp add: search_personas_def contains_def ana_def)
qed

section \<open>Bulk population\<close>

lemma random_choice_mem: "seq \<noteq> [] \<Longrightarrow> random_choice seq k \<in> set seq"
  by (simp add: random_choice_def)

text \<open>
  Every generated record has the email \<open>firstname.lastname@domain\<close>, in lower case, with
  the domain taken from the four fixed ones, and the birth date the generator drew.
\<close>

lemma fake_persona_fields:
  "email (fake_persona lower d) =
     Some (lower (fk_first_name d) @ ''.'' @ lower (fk_last_name d) @ ''@''
           @ random_choice dominios_validos (rnd_dominio d))
 \<and> random_choice dominios_validos (rnd_dominio d) \<in> set dominios_validos
 \<and> first_name (fake_persona lower d) = fk_first_name d
 \<and> last_name (fake_persona lower d) = fk_last_name d
 \<and> birth_date (fake_persona lower d) = Some (fk_date_of_birth d)"
proof -
  have "dominios_validos \<noteq> []"
    by (simp add: dominios_validos_def)
  then have "random_choice dominios_validos (rnd_dominio d) \<in> set dominios_validos"
    by (rule random_choice_mem)
  then show ?thesis
    by (simp add: fake_persona_def Persona_def Let_def)
qed

lemma upt_Suc_shift: "[0..<Suc n] = 0 # map Suc [0..<n]"
  by (simp add: upt_conv_Cons map_Suc_upt del: upt_Suc)

lemma db_insert_all_fresh:
  "distinct (map email ps) \<Longrightarrow>
   \<forall>p\<in>set ps. email p \<noteq> None \<and> email p \<notin> email ` set (rows db) \<Longrightarrow>
   db_insert_all db ps =
     Inr \<lparr>rows = rows db @ map (\<lambda>k. (ps ! k)\<lparr>persona_id := next_id db + int k\<rparr>) [0..<length ps],
          next_id = next_id db + int (length ps)\<rparr>"
proof (induction ps arbitrary: db)
  case Nil
  then show ?case by simp
next
  case (Cons p ps)
  let ?obj = "p\<lparr>persona_id := next_id db\<rparr>"
  let ?db1 = "\<lparr>rows = rows db @ [?obj], next_id = next_id db + 1\<rparr>"
  from Cons.prems(2) have "\<not> unique_violation (rows db) p"
    by (simp add: unique_violation_iff)
  then have ins: "db_insert db p = Inr (?obj, ?db1)"
    by (simp add: db_insert_def Let_def)
  have d: "distinct (map email ps)" and np: "email p \<notin> email ` set ps"
    using Cons.prems(1) by simp_all
  have fr: "\<forall>q\<in>set ps. email q \<noteq> None \<and> email q \<notin> email ` set (rows ?db1)"
  proof
    fix q assume q: "q \<in> set ps"
    then have "email q \<noteq> email p" using np by (metis imageI)
    then show "email q \<noteq> None \<and> email q \<notin> email ` set (rows ?db1)"
      using Cons.prems(2) q by auto
  qed
  have "db_insert_all db (p # ps) = db_insert_all ?db1 ps"
    using ins by simp
  also have "\<dots> = Inr \<lparr>rows = rows ?db1 @ map (\<lambda>k. (ps ! k)\<lparr>persona_id := next_id ?db1 + int k\<rparr>) [0..<length ps],
          next_id = next_id ?db1 + int (length ps)\<rparr>"
    using d fr by (rule Cons.IH)
  also have "\<dots> = Inr \<lparr>rows = rows db @ map (\<lambda>k. ((p # ps) ! k)\<lparr>persona_id := next_id db + int k\<rparr>) [0..<length (p # ps)],
          next_id = next_id db + int (length (p # ps))\<rparr>"
    by (simp add: upt_Suc_shift o_def add.assoc del: upt_Suc)
  finally show ?case .
qed

text \<open>
  When the generated emails differ from one another and from every stored email, the
  batch is inserted whole, with consecutive identifiers, and its size is returned.
\<close>

lemma poblar_personas_fresh:
  assumes "distinct (map (\<lambda>i. email (fake_persona lower (gen i))) [0..<nat cantidad])"
    and "\<forall>i<nat cantidad. email (fake_persona lower (gen i)) \<notin> email ` set (rows db)"
  shows "poblar_personas lower gen db cantidad =
     (Inr (int (nat cantidad)),
      \<lparr>rows = rows db @ map (\<lambda>i. (fake_persona lower (gen i))\<lparr>persona_id := next_id db + int i\<rparr>)
                          [0..<nat cantidad],
       next_id = next_id db + int (nat cantidad)\<rparr>)"
proof -
  let ?ps = "map (\<lambda>i. fake_persona lower (gen i)) [0..<nat cantidad]"
  have d: "distinct (map email ?ps)"
    using assms(1) by (simp add: o_def)
  have fr: "\<forall>p\<in>set ?ps. email p \<noteq> None \<and> email p \<notin> email ` set (rows db)"
    using assms(2) by (auto simp: fake_persona_fields)
  have m: "map (\<lambda>k. (?ps ! k)\<lparr>persona_id := next_id db + int k\<rparr>) [0..<length ?ps]
      = map (\<lambda>i. (fake_persona lower (gen i))\<lparr>persona_id := next_id db + int i\<rparr>) [0..<nat cantidad]"
    by simp
  show ?thesis
    unfolding poblar_personas_def Let_def db_insert_all_fresh [OF d fr] m by simp
qed

text \<open>
  Claim C8. BulkPopulate is to insert exactly \<open>count\<close> records and return \<open>count\<close> for
  every store and every count from 1 to 1000. When the generator draws a name and a
  domain whose email is already stored, or draws the same ones twice in one batch,
  \<open>commit\<close> raises \<open>IntegrityError\<close>, which \<open>poblar_personas\<close> does not catch: nothing is
  inserted and no count is returned.
\<close>

theorem poblar_personas_collision:
  "poblar_personas lower_ascii (\<lambda>i. draw_ana) \<lparr>rows = [ana], next_id = 2\<rparr> 1
     = (Inl IntegrityError, \<lparr>rows = [ana], next_id = 2\<rparr>)
 \<and> poblar_personas lower_ascii (\<lambda>i. draw_ana) \<lparr>rows = [], next_id = 1\<rparr> 2
     = (Inl IntegrityError, \<lparr>rows = [], next_id = 1\<rparr>)"
proof -
  have f: "fake_persona lower_ascii draw_ana =
      \<lparr>persona_id = 0, first_name = ''Ana'', last_name = ''Torres'',
       email = Some ''ana.torres@gmail.com'', phone = Some ''600111222'',
       birth_date = Some \<lparr>year = 1990, month = 5, day = 17\<rparr>,
       is_active = True, notes_p = None\<rparr>"
    by (simp add: fake_persona_def draw_ana_def lower_ascii_def random_choice_def
      dominios_validos_def Persona_def Let_def)
  have u: "[0..<(2::nat)] = [0, 1]" "[0..<(1::nat)] = [0]"
    by (simp_all add: upt_rec)
  show ?thesis
    by (simp add: poblar_personas_def f u db_insert_def unique_violation_def ana_def Let_def)
qed

end
